theory Spec2Isabelle
  imports Complex_Main
begin

section \<open>Values\<close>

text \<open>
  A pandas float64 cell is a finite number, an infinity or NaN. Finite floats are modelled
  as exact rationals (no rounding error of the binary representation); NaN is pandas'
  null. A string is a list of 8-bit characters (code points below 256); a nullable string,
  integer or key column holds \<open>None\<close> where pandas holds NaN.
\<close>

datatype float64 = Finite rat | PosInf | NegInf | NaN

fun isna :: "float64 \<Rightarrow> bool" where
  "isna NaN = True"
| "isna _ = False"

text \<open>Comparison of a float cell with a finite constant; every comparison with NaN is False.\<close>

fun float_lt :: "float64 \<Rightarrow> rat \<Rightarrow> bool" where
  "float_lt (Finite x) c = (x < c)"
| "float_lt NegInf c = True"
| "float_lt PosInf c = False"
| "float_lt NaN c = False"

fun float_gt :: "float64 \<Rightarrow> rat \<Rightarrow> bool" where
  "float_gt (Finite x) c = (x > c)"
| "float_gt PosInf c = True"
| "float_gt NegInf c = False"
| "float_gt NaN c = False"

section \<open>County-name standardization (clean\_standardize.py)\<close>

text \<open>The characters Python's \<open>str.strip()\<close> removes, among the code points below 256.\<close>

definition isspace :: "char \<Rightarrow> bool" where
  "isspace c = (let n = (of_char c :: nat)
                in (9 \<le> n \<and> n \<le> 13) \<or> (28 \<le> n \<and> n \<le> 32) \<or> n = 133 \<or> n = 160)"

definition strip :: "string \<Rightarrow> string" where
  "strip s = rev (dropWhile isspace (rev (dropWhile isspace s)))"

text \<open>The dictionary \<open>name_fixes\<close> of \<open>standardize_county_names\<close>, in the source's order.\<close>

definition name_fixes :: "(string \<times> string) list" where
  "name_fixes =
    [(''St. Johns'', ''St. Johns''),
     (''Saint Johns'', ''St. Johns''),
     (''St Johns'', ''St. Johns''),
     (''St. Lucie'', ''St. Lucie''),
     (''Saint Lucie'', ''St. Lucie''),
     (''St Lucie'', ''St. Lucie''),
     (''Miami-Dade'', ''Miami-Dade''),
     (''Dade'', ''Miami-Dade''),
     (''Miami Dade'', ''Miami-Dade''),
     (''DeSoto'', ''Desoto''),
     (''De Soto'', ''Desoto'')]"

text \<open>
  \<open>Series.replace(name_fixes)\<close>: a cell equal to a key becomes that key's value, every
  other cell stays.
\<close>

definition replace :: "(string \<times> string) list \<Rightarrow> string \<Rightarrow> string" where
  "replace d s = (case map_of d s of Some v \<Rightarrow> v | None \<Rightarrow> s)"

text \<open>
  What \<open>standardize_county_names\<close> does to one cell of the County column:
  \<open>.str.strip()\<close>, then \<open>.replace(name_fixes)\<close>.
\<close>

definition standardize_name :: "string \<Rightarrow> string" where
  "standardize_name s = replace name_fixes (strip s)"

section \<open>Rural-urban categories (add\_usda\_codes.py, temporal\_matching.py)\<close>

datatype category = Metropolitan | Micropolitan_Small_Urban | Rural

text \<open>\<open>categorize\<close> of \<open>process_usda_codes\<close> in add\_usda\_codes.py.\<close>

definition categorize :: "float64 \<Rightarrow> category option" where
  "categorize code =
    (if isna code then None
     else if code \<in> set [Finite 1, Finite 2, Finite 3] then Some Metropolitan
     else if code \<in> set [Finite 4, Finite 5, Finite 6, Finite 7]
       then Some Micropolitan_Small_Urban
     else Some Rural)"

text \<open>\<open>categorize\<close> of \<open>add_usda_codes\<close> in temporal\_matching.py.\<close>

definition categorize_temporal :: "float64 \<Rightarrow> category option" where
  "categorize_temporal code =
    (if isna code then None
     else if code \<in> set [Finite 1, Finite 2, Finite 3] then Some Metropolitan
     else if code \<in> set [Finite 4, Finite 5, Finite 6, Finite 7]
       then Some Micropolitan_Small_Urban
     else Some Rural)"

section \<open>Tables of the cleaning stage (clean\_standardize.py)\<close>

text \<open>
  A DataFrame of election records is the list of its column names and the list of its
  rows. A row has one field for each column of the election schema, with the dtype the
  CSV has: nullable strings, nullable integers, a float for the reported turnout. Which of
  the columns the table really carries is what \<open>columns\<close> says; the field of a column that
  is not listed is never read. Selecting a column that is not listed raises
  \<open>KeyError\<close>. Cells of columns outside the schema are not represented.
\<close>

datatype error = KeyError string

record row =
  FIPS :: "int option"
  County :: "string option"
  County_Original :: "string option"
  Year :: "int option"
  Election_Date :: "string option"
  Registered_Voters :: "int option"
  Votes_Cast :: "int option"
  Turnout_Percent :: float64

record frame =
  columns :: "string list"
  rows :: "row list"

text \<open>The FIPS reference table: columns FIPS and County\_Name.\<close>

record fips_row =
  ref_FIPS :: "int option"
  County_Name :: "string option"

record fips_frame =
  ref_columns :: "string list"
  ref_rows :: "fips_row list"

text \<open>
  \<open>load_data\<close>. The two CSV files are the arguments: \<open>None\<close> for a file that does not
  exist, the table read from it otherwise. The result is the pair the source returns.
\<close>

definition load_data :: "frame option \<Rightarrow> fips_frame option \<Rightarrow> frame option \<times> fips_frame option" where
  "load_data ELECTION_FILE FIPS_FILE =
    (case ELECTION_FILE of
       None \<Rightarrow> (None, None)
     | Some elections \<Rightarrow>
        (case FIPS_FILE of
           None \<Rightarrow> (Some elections, None)
         | Some fips \<Rightarrow> (Some elections, Some fips)))"

text \<open>
  \<open>standardize_county_names\<close>: County\_Original receives the County column as it was,
  County is stripped and then replaced through \<open>name_fixes\<close>; a null cell stays null.
\<close>

definition standardize_county_names :: "frame \<Rightarrow> error + frame" where
  "standardize_county_names df =
    (if ''County'' \<notin> set (columns df) then Inl (KeyError ''County'')
     else Inr \<lparr>columns = (if ''County_Original'' \<in> set (columns df) then columns df
                           else columns df @ [''County_Original'']),
               rows = map (\<lambda>r. r\<lparr>County_Original := County r,
                                   County := map_option standardize_name (County r)\<rparr>)
                        (rows df)\<rparr>)"

text \<open>
  The left merge of \<open>add_fips_codes\<close> on County = County\_Name: a left row is repeated once
  for each reference row with the same name, in the reference's order, and kept once with
  a null FIPS when there is none. pandas matches a null key with a null key.
\<close>

definition merge_fips :: "row list \<Rightarrow> fips_row list \<Rightarrow> row list" where
  "merge_fips left right =
    concat (map (\<lambda>r. case filter (\<lambda>q. County_Name q = County r) right of
                        [] \<Rightarrow> [r\<lparr>FIPS := None\<rparr>]
                      | ms \<Rightarrow> map (\<lambda>q. r\<lparr>FIPS := ref_FIPS q\<rparr>) ms) left)"

text \<open>
  \<open>add_fips_codes\<close>. With no reference table the election table is returned as it is.
  Otherwise the merged table is reduced to the columns of \<open>cols\<close>. A FIPS or County\_Name
  column already on the left is renamed by the merge (suffixes), so that the later
  selection of FIPS, or the drop of County\_Name, raises.
\<close>

definition add_fips_codes :: "frame \<Rightarrow> fips_frame option \<Rightarrow> error + frame" where
  "add_fips_codes elections_df fips_df =
    (case fips_df of
       None \<Rightarrow> Inr elections_df
     | Some fips \<Rightarrow>
        (if ''FIPS'' \<notin> set (ref_columns fips) then Inl (KeyError ''FIPS'')
         else if ''County_Name'' \<notin> set (ref_columns fips) then Inl (KeyError ''County_Name'')
         else if ''County'' \<notin> set (columns elections_df) then Inl (KeyError ''County'')
         else if ''FIPS'' \<in> set (columns elections_df) then Inl (KeyError ''FIPS'')
         else if ''County_Name'' \<in> set (columns elections_df)
           then Inl (KeyError ''County_Name'')
         else
          (let merged = merge_fips (rows elections_df) (ref_rows fips);
               cols = (if ''County_Original'' \<in> set (columns elections_df)
                       then [''FIPS'', ''County'', ''County_Original'', ''Year'',
                             ''Election_Date'', ''Registered_Voters'', ''Votes_Cast'',
                             ''Turnout_Percent'']
                       else [''FIPS'', ''County'', ''Year'', ''Election_Date'',
                             ''Registered_Voters'', ''Votes_Cast'', ''Turnout_Percent''])
           in case filter (\<lambda>c. c \<notin> set (columns elections_df) \<and> c \<noteq> ''FIPS'') cols of
                [] \<Rightarrow> Inr \<lparr>columns = cols, rows = merged\<rparr>
              | c # _ \<Rightarrow> Inl (KeyError c))))"

section \<open>Quality checks (clean\_standardize.py)\<close>

text \<open>
  The entries of the list \<open>issues\<close>. The source appends formatted strings; an entry here
  holds the values the string is formatted from, one constructor for each of the four
  \<open>issues.append\<close> calls.
\<close>

datatype issue =
    Missing_values string nat
  | County_count int nat
  | Low_turnout "string option" "int option" float64
  | Duplicate_records nat

text \<open>\<open>df.isnull()\<close> on one cell of a named column.\<close>

definition isnull :: "string \<Rightarrow> row \<Rightarrow> bool" where
  "isnull col r =
    (if col = ''FIPS'' then FIPS r = None
     else if col = ''County'' then County r = None
     else if col = ''County_Original'' then County_Original r = None
     else if col = ''Year'' then Year r = None
     else if col = ''Election_Date'' then Election_Date r = None
     else if col = ''Registered_Voters'' then Registered_Voters r = None
     else if col = ''Votes_Cast'' then Votes_Cast r = None
     else if col = ''Turnout_Percent'' then isna (Turnout_Percent r)
     else False)"

definition dropna :: "'a option list \<Rightarrow> 'a list" where
  "dropna xs = concat (map (\<lambda>x. case x of None \<Rightarrow> [] | Some v \<Rightarrow> [v]) xs)"

text \<open>\<open>Series.nunique()\<close>: the number of distinct values that are not null.\<close>

definition nunique :: "'a option list \<Rightarrow> nat" where
  "nunique xs = length (remdups (dropna xs))"

text \<open>
  \<open>df.groupby('Year')['County'].nunique()\<close>: one entry for each year that is not null, in
  ascending order.
\<close>

definition county_counts :: "row list \<Rightarrow> (int \<times> nat) list" where
  "county_counts rs =
    map (\<lambda>y. (y, nunique (map County (filter (\<lambda>r. Year r = Some y) rs))))
        (sort (remdups (dropna (map Year rs))))"

text \<open>Float arithmetic of the recomputation, on exact rationals, with the IEEE special cases.\<close>

fun float_div :: "int option \<Rightarrow> int option \<Rightarrow> float64" where
  "float_div (Some a) (Some b) =
    (if b = 0 then (if a = 0 then NaN else if a > 0 then PosInf else NegInf)
     else Finite (of_int a / of_int b))"
| "float_div _ _ = NaN"

fun float_times_100 :: "float64 \<Rightarrow> float64" where
  "float_times_100 (Finite x) = Finite (x * 100)"
| "float_times_100 v = v"

text \<open>\<open>round(1)\<close>: to one decimal, a tie going to the even digit.\<close>

definition rint :: "rat \<Rightarrow> int" where
  "rint x = (let f = \<lfloor>x\<rfloor>; d = x - of_int f
             in if d < 1 / 2 then f else if d > 1 / 2 then f + 1
                else if even f then f else f + 1)"

fun round1 :: "float64 \<Rightarrow> float64" where
  "round1 (Finite x) = Finite (of_int (rint (x * 10)) / 10)"
| "round1 v = v"

fun float_sub :: "float64 \<Rightarrow> float64 \<Rightarrow> float64" where
  "float_sub (Finite x) (Finite y) = Finite (x - y)"
| "float_sub NaN _ = NaN"
| "float_sub _ NaN = NaN"
| "float_sub PosInf PosInf = NaN"
| "float_sub NegInf NegInf = NaN"
| "float_sub PosInf _ = PosInf"
| "float_sub NegInf _ = NegInf"
| "float_sub (Finite x) PosInf = NegInf"
| "float_sub (Finite x) NegInf = PosInf"

fun float_abs :: "float64 \<Rightarrow> float64" where
  "float_abs (Finite x) = Finite \<bar>x\<bar>"
| "float_abs NegInf = PosInf"
| "float_abs v = v"

definition Calculated_Turnout :: "row \<Rightarrow> float64" where
  "Calculated_Turnout r = round1 (float_times_100 (float_div (Votes_Cast r) (Registered_Voters r)))"

definition Turnout_Difference :: "row \<Rightarrow> float64" where
  "Turnout_Difference r = float_abs (float_sub (Calculated_Turnout r) (Turnout_Percent r))"

text \<open>The three row selections of the range check and of the recomputation check.\<close>

definition low_turnout :: "row list \<Rightarrow> row list" where
  "low_turnout rs = filter (\<lambda>r. float_lt (Turnout_Percent r) 30) rs"

definition high_turnout :: "row list \<Rightarrow> row list" where
  "high_turnout rs = filter (\<lambda>r. float_gt (Turnout_Percent r) 95) rs"

definition mismatches :: "row list \<Rightarrow> row list" where
  "mismatches rs = filter (\<lambda>r. float_gt (Turnout_Difference r) (1 / 2)) rs"

text \<open>
  \<open>df.duplicated(subset=['County', 'Year'], keep=False)\<close>: the rows whose pair of County
  and Year occurs more than once; nulls compare equal.
\<close>

definition duplicates :: "row list \<Rightarrow> row list" where
  "duplicates rs =
    filter (\<lambda>r. 1 < length (filter (\<lambda>q. County q = County r \<and> Year q = Year r) rs)) rs"

text \<open>
  \<open>quality_checks\<close>. The rows of \<open>high_turnout\<close> and of \<open>mismatches\<close> are printed by the
  source and not appended to \<open>issues\<close>; printing is not modelled, so neither selection
  occurs below. The two helper columns are dropped from the returned table.
\<close>

definition quality_checks :: "frame \<Rightarrow> error + (frame \<times> issue list)" where
  "quality_checks df =
    (if ''Year'' \<notin> set (columns df) then Inl (KeyError ''Year'')
     else if ''County'' \<notin> set (columns df) then Inl (KeyError ''County'')
     else if ''Turnout_Percent'' \<notin> set (columns df) then Inl (KeyError ''Turnout_Percent'')
     else if ''Votes_Cast'' \<notin> set (columns df) then Inl (KeyError ''Votes_Cast'')
     else if ''Registered_Voters'' \<notin> set (columns df)
       then Inl (KeyError ''Registered_Voters'')
     else
      (let missing = map (\<lambda>col. (col, length (filter (isnull col) (rows df)))) (columns df);
           issues1 = map (\<lambda>(col, count). Missing_values col count)
                         (filter (\<lambda>(col, count). count > 0) missing);
           issues2 = issues1 @ map (\<lambda>(year, count). County_count year count)
                         (filter (\<lambda>(year, count). count \<noteq> 67) (county_counts (rows df)));
           issues3 = issues2 @ map (\<lambda>r. Low_turnout (County r) (Year r) (Turnout_Percent r))
                         (low_turnout (rows df));
           dup_count = length (duplicates (rows df));
           issues4 = (if dup_count > 0 then issues3 @ [Duplicate_records dup_count]
                      else issues3)
       in Inr (\<lparr>columns = filter (\<lambda>c. c \<noteq> ''Calculated_Turnout'' \<and> c \<noteq> ''Turnout_Difference'')
                                  (columns df),
                 rows = rows df\<rparr>, issues4)))"

text \<open>Whether an issue is the county-count issue of a given year.\<close>

definition names_year :: "int \<Rightarrow> issue \<Rightarrow> bool" where
  "names_year y i = (case i of County_count y' n \<Rightarrow> y' = y | _ \<Rightarrow> False)"

section \<open>Integration (data\_integration.py)\<close>

text \<open>
  An enrichment table is the list of its rows, each the FIPS key with the cells of the
  variables. \<open>merge_left\<close> is \<open>left.merge(right, on='FIPS', how='left')\<close>: a left row is
  repeated once for each right row with its key, in the right table's order, and kept
  once with no right row when there is none. pandas matches a null key with a null key.
\<close>

definition merge_left :: "('l \<Rightarrow> 'k) \<Rightarrow> 'l list \<Rightarrow> ('k \<times> 'a) list \<Rightarrow> ('l \<times> 'a option) list" where
  "merge_left key left right =
    concat (map (\<lambda>l. case filter (\<lambda>(k, v). k = key l) right of
                        [] \<Rightarrow> [(l, None)]
                      | ms \<Rightarrow> map (\<lambda>(k, v). (l, Some v)) ms) left)"

text \<open>
  \<open>integrate_all_data\<close>. A row of the result is the election row with the census row and
  the BEA row merged to it; \<open>None\<close> stands for null cells, and for the columns that are
  not there when the table is \<open>None\<close>. A merge on a table without a FIPS column raises.
\<close>

definition integrate_all_data ::
  "frame \<Rightarrow> (int option \<times> 'c) list option \<Rightarrow> (int option \<times> 'b) list option \<Rightarrow>
     error + ((row \<times> 'c option) \<times> 'b option) list" where
  "integrate_all_data elections census bea =
    (if (census \<noteq> None \<or> bea \<noteq> None) \<and> ''FIPS'' \<notin> set (columns elections)
     then Inl (KeyError ''FIPS'')
     else
      (let integrated = (case census of
                           None \<Rightarrow> map (\<lambda>r. (r, None)) (rows elections)
                         | Some c \<Rightarrow> merge_left FIPS (rows elections) c)
       in Inr (case bea of
                 None \<Rightarrow> map (\<lambda>x. (x, None)) integrated
               | Some b \<Rightarrow> merge_left (\<lambda>x. FIPS (fst x)) integrated b)))"

text \<open>
  The number of rows a left row becomes in a merge with a table: the number of right rows
  with its key, and one when there is none or when there is no table. A table has a unique
  key when no key occurs twice.
\<close>

definition multiplicity :: "('k \<times> 'a) list option \<Rightarrow> 'k \<Rightarrow> nat" where
  "multiplicity table k =
    (case table of None \<Rightarrow> 1 | Some t \<Rightarrow> max 1 (length (filter (\<lambda>(k', v). k' = k) t)))"

definition unique_key :: "('k \<times> 'a) list option \<Rightarrow> bool" where
  "unique_key table = (case table of None \<Rightarrow> True | Some t \<Rightarrow> distinct (map fst t))"

section \<open>Temporal matching of BEA data (temporal\_matching.py)\<close>

text \<open>
  A wide-form BEA table: one row for each line of a county, with the region code, the
  description of the line, and one cell for each year column. GeoFIPS and Description
  are text columns, and the cells of the year columns are the text of the CSV fields.
  \<open>None\<close> for the file stands for a file that cannot be read.
\<close>

record wide_row =
  GeoFIPS :: "string option"
  Description :: "string option"
  cells :: "(string \<times> string) list"

record wide_table =
  wide_columns :: "string list"
  wide_rows :: "wide_row list"


text \<open>String methods: \<open>strip('"')\<close>, \<open>startswith\<close>, and \<open>contains\<close> with \<open>case=False\<close>.\<close>

definition strip_quotes :: "string \<Rightarrow> string" where
  "strip_quotes s = rev (dropWhile (\<lambda>c. c = CHR 0x22) (rev (dropWhile (\<lambda>c. c = CHR 0x22) s)))"

definition startswith :: "string \<Rightarrow> string \<Rightarrow> bool" where
  "startswith s p = (take (length p) s = p)"

definition lower :: "char \<Rightarrow> char" where
  "lower c = (let n = (of_char c :: nat) in if 65 \<le> n \<and> n \<le> 90 then char_of (n + 32) else c)"

fun contains :: "string \<Rightarrow> string \<Rightarrow> bool" where
  "contains [] pat = (pat = [])"
| "contains (c # cs) pat = (startswith (c # cs) pat \<or> contains cs pat)"

definition contains_nocase :: "string \<Rightarrow> string \<Rightarrow> bool" where
  "contains_nocase s pat = contains (map lower s) (map lower pat)"

definition GeoFIPS_clean :: "string \<Rightarrow> string" where
  "GeoFIPS_clean g = strip (strip_quotes (strip g))"

text \<open>
  The county lines of a table for one description: the rows whose cleaned region code has
  five characters, starts with 12 and is not 12000, each with its code as an integer, and
  among them the rows whose stripped description contains the pattern. \<open>astype_int\<close> is
  pandas' conversion of the code to an integer, \<open>None\<close> where it raises; one such row makes
  the whole extraction fail, as do a missing GeoFIPS or Description column.
\<close>

definition county_lines ::
  "(string \<Rightarrow> int option) \<Rightarrow> string \<Rightarrow> wide_table \<Rightarrow> (int \<times> wide_row) list option" where
  "county_lines astype_int pattern table =
    (if ''GeoFIPS'' \<notin> set (wide_columns table) then None
     else
      (let cleaned = concat (map (\<lambda>w. case GeoFIPS w of None \<Rightarrow> []
                                       | Some g \<Rightarrow> [(GeoFIPS_clean g, w)]) (wide_rows table));
           counties = filter (\<lambda>(g, w). length g = 5 \<and> startswith g ''12'' \<and> g \<noteq> ''12000'')
                        cleaned
       in case those (map (\<lambda>(g, w). map_option (\<lambda>f. (f, w)) (astype_int g)) counties) of
            None \<Rightarrow> None
          | Some with_fips \<Rightarrow>
             if ''Description'' \<notin> set (wide_columns table) then None
             else Some (filter (\<lambda>(f, w). case Description w of None \<Rightarrow> False
                                  | Some d \<Rightarrow> contains_nocase (strip d) pattern) with_fips)))"

text \<open>The cell of a row in a named column; a field that is not there is empty.\<close>

definition cell :: "wide_row \<Rightarrow> string \<Rightarrow> string" where
  "cell w col = (case map_of (cells w) col of None \<Rightarrow> [] | Some v \<Rightarrow> v)"

text \<open>
  The extraction of one variable for one BEA year, the body of each \<open>try\<close> block: the
  county lines, reduced to the FIPS code and the cell of the column named \<open>bea_year\<close>,
  made a number by \<open>to_numeric\<close> (pandas' parser with \<open>errors='coerce'\<close>, a parameter).
  The result is \<open>None\<close> when the file cannot be read, when an exception is caught, and
  when the table has no column \<open>bea_year\<close>.
\<close>

definition extract_year ::
  "(string \<Rightarrow> int option) \<Rightarrow> (string \<Rightarrow> float64) \<Rightarrow> string \<Rightarrow> string \<Rightarrow> wide_table option \<Rightarrow>
     (int option \<times> float64) list option" where
  "extract_year astype_int to_numeric pattern bea_year file =
    (case file of
       None \<Rightarrow> None
     | Some table \<Rightarrow>
        (case county_lines astype_int pattern table of
           None \<Rightarrow> None
         | Some lines \<Rightarrow>
            if bea_year \<in> set (wide_columns table)
            then Some (map (\<lambda>(f, w). (Some f, to_numeric (cell w bea_year))) lines)
            else None))"

text \<open>
  A row of the result of \<open>process_bea_temporal\<close>: the election row with the two BEA
  variables; null where no line matches and where the column is not there.
\<close>

record matched_row =
  election :: row
  Per_Capita_Income :: float64
  GDP_Millions :: float64

definition value_or_nan :: "float64 option \<Rightarrow> float64" where
  "value_or_nan v = (case v of None \<Rightarrow> NaN | Some x \<Rightarrow> x)"

text \<open>One pass of the loop: the election rows of one year merged with that year's data.\<close>

definition year_data ::
  "(string \<Rightarrow> int option) \<Rightarrow> (string \<Rightarrow> float64) \<Rightarrow> row list \<Rightarrow> wide_table option \<Rightarrow>
     wide_table option \<Rightarrow> int \<times> string \<Rightarrow> matched_row list" where
  "year_data astype_int to_numeric elections income_file gdp_file mapping =
    (let election_year = fst mapping; bea_year = snd mapping;
         year_elections = filter (\<lambda>r. Year r = Some election_year) elections;
         income = extract_year astype_int to_numeric ''Per capita personal income'' bea_year
                    income_file;
         gdp = extract_year astype_int to_numeric ''All industry total'' bea_year gdp_file;
         with_income = (case income of
                          None \<Rightarrow> map (\<lambda>r. (r, None)) year_elections
                        | Some t \<Rightarrow> merge_left FIPS year_elections t);
         with_gdp = (case gdp of
                       None \<Rightarrow> map (\<lambda>x. (x, None)) with_income
                     | Some t \<Rightarrow> merge_left (\<lambda>x. FIPS (fst x)) with_income t)
     in map (\<lambda>((r, i), g). \<lparr>election = r, Per_Capita_Income = value_or_nan i,
                               GDP_Millions = value_or_nan g\<rparr>) with_gdp)"


section \<open>Example tables\<close>

text \<open>
  The 67 counties of Florida under their standardized names, and tables built from them:
  one row for each county in 2020, with 1000 registered voters, 700 votes cast and a
  reported turnout of 70.0.
\<close>

definition florida_counties :: "string list" where
  "florida_counties =
    [''Alachua'', ''Baker'', ''Bay'', ''Bradford'', ''Brevard'', ''Broward'', ''Calhoun'',
     ''Charlotte'', ''Citrus'', ''Clay'', ''Collier'', ''Columbia'', ''Desoto'', ''Dixie'',
     ''Duval'', ''Escambia'', ''Flagler'', ''Franklin'', ''Gadsden'', ''Gilchrist'',
     ''Glades'', ''Gulf'', ''Hamilton'', ''Hardee'', ''Hendry'', ''Hernando'', ''Highlands'',
     ''Hillsborough'', ''Holmes'', ''Indian River'', ''Jackson'', ''Jefferson'',
     ''Lafayette'', ''Lake'', ''Lee'', ''Leon'', ''Levy'', ''Liberty'', ''Madison'',
     ''Manatee'', ''Marion'', ''Martin'', ''Miami-Dade'', ''Monroe'', ''Nassau'',
     ''Okaloosa'', ''Okeechobee'', ''Orange'', ''Osceola'', ''Palm Beach'', ''Pasco'',
     ''Pinellas'', ''Polk'', ''Putnam'', ''St. Johns'', ''St. Lucie'', ''Santa Rosa'',
     ''Sarasota'', ''Seminole'', ''Sumter'', ''Suwannee'', ''Taylor'', ''Union'',
     ''Volusia'', ''Wakulla'', ''Walton'', ''Washington'']"

definition cleaned_columns :: "string list" where
  "cleaned_columns = [''FIPS'', ''County'', ''County_Original'', ''Year'', ''Election_Date'',
                      ''Registered_Voters'', ''Votes_Cast'', ''Turnout_Percent'']"

definition election_row :: "int option \<Rightarrow> string \<Rightarrow> int \<Rightarrow> int \<Rightarrow> int \<Rightarrow> rat \<Rightarrow> row" where
  "election_row fips county year registered votes turnout =
    \<lparr>FIPS = fips, County = Some county, County_Original = Some county,
     Year = Some year, Election_Date = Some ''11/03/2020'',
     Registered_Voters = Some registered, Votes_Cast = Some votes,
     Turnout_Percent = Finite turnout\<rparr>"

definition county_rows :: "string list \<Rightarrow> row list" where
  "county_rows names = map (\<lambda>c. election_row (Some 12001) c 2020 1000 700 70) names"

definition with_first_row :: "row \<Rightarrow> frame" where
  "with_first_row r = \<lparr>columns = cleaned_columns, rows = r # county_rows (tl florida_counties)\<rparr>"

definition sixty_six_counties :: frame where
  "sixty_six_counties = \<lparr>columns = cleaned_columns, rows = county_rows (tl florida_counties)\<rparr>"


definition high_turnout_table :: frame where
  "high_turnout_table = with_first_row (election_row (Some 12001) ''Alachua'' 2020 1000 960 96)"

definition mismatch_table :: frame where
  "mismatch_table = with_first_row (election_row (Some 12001) ''Alachua'' 2020 1000 700 75)"

definition unresolved_columns :: "string list" where
  "unresolved_columns = [''County'', ''Year'', ''Election_Date'', ''Registered_Voters'',
                         ''Votes_Cast'', ''Turnout_Percent'', ''County_Original'']"

definition sample_elections :: frame where
  "sample_elections =
    \<lparr>columns = unresolved_columns,
     rows = [election_row None ''Alachua'' 2020 1000 700 70,
             election_row None ''Atlantis'' 2020 1000 700 70]\<rparr>"


definition sample_resolved :: frame where
  "sample_resolved =
    \<lparr>columns = cleaned_columns,
     rows = [election_row (Some 12001) ''Alachua'' 2020 1000 700 70,
             election_row None ''Atlantis'' 2020 1000 700 70]\<rparr>"








definition sample_census :: "(int option \<times> rat) list" where
  "sample_census = [(Some 12001, 50000), (Some 12003, 40000)]"

definition sample_census_repeated :: "(int option \<times> rat) list" where
  "sample_census_repeated = [(Some 12001, 50000), (Some 12001, 51000)]"

definition sample_bea :: "(int option \<times> rat) list" where
  "sample_bea = [(Some 12001, 7), (None, 8)]"

section \<open>Properties of the standardization\<close>

lemma dropWhile_strip: "dropWhile isspace (strip s) = strip s"
proof (cases "strip s")
  case Nil
  then show ?thesis by simp
next
  case (Cons c cs)
  let ?t = "dropWhile isspace s"
  have ne: "dropWhile isspace (rev ?t) \<noteq> []"
    using Cons by (auto simp: strip_def)
  have t: "?t \<noteq> []"
  proof
    assume "?t = []"
    then have "dropWhile isspace (rev ?t) = []"
      by (simp only: rev.simps(1) dropWhile.simps(1))
    with ne show False by (simp only: not_True_eq_False simp_thms)
  qed
  have "hd (strip s) = last (dropWhile isspace (rev ?t))"
    using ne by (simp add: strip_def hd_rev)
  also have "\<dots> = last (rev ?t)"
    using ne by (metis last_appendR takeWhile_dropWhile_id)
  also have "\<dots> = hd ?t"
    using t by (simp add: last_rev)
  finally have "hd (strip s) = hd ?t" .
  moreover have "\<not> isspace (hd ?t)"
    using t by (rule hd_dropWhile)
  ultimately have "\<not> isspace c" using Cons by simp
  then show ?thesis using Cons by simp
qed

lemma strip_idem: "strip (strip s) = strip s"
proof -
  have "strip (strip s) = rev (dropWhile isspace (rev (strip s)))"
    unfolding strip_def [of "strip s"] by (simp only: dropWhile_strip)
  also have "\<dots> = strip s"
    by (simp add: strip_def)
  finally show ?thesis .
qed

lemma name_fixes_fixed: "list_all (\<lambda>v. standardize_name v = v) (map snd name_fixes)"
  by code_simp

lemma name_fixes_values:
  assumes "map_of name_fixes s = Some v"
  shows "standardize_name v = v"
proof -
  have "(s, v) \<in> set name_fixes" using assms by (rule map_of_SomeD)
  then have "v \<in> set (map snd name_fixes)" by force
  then show ?thesis using name_fixes_fixed by (simp only: list_all_iff)
qed

text \<open>The spellings of the alias table, padding included; an unknown name stays.\<close>

lemma standardize_spellings:
  "standardize_name ''Saint Johns'' = ''St. Johns'' \<and>
   standardize_name ''St Johns'' = ''St. Johns'' \<and>
   standardize_name ''St. Johns'' = ''St. Johns'' \<and>
   standardize_name ''  Miami Dade '' = ''Miami-Dade'' \<and>
   standardize_name ''Alachua'' = ''Alachua''"
  by code_simp

text \<open>
  C7. Standardizing a county name is idempotent: stripping and replacing the result of a
  first strip-and-replace changes nothing, for every input string.
\<close>

theorem standardize_name_idempotent:
  "standardize_name (standardize_name x) = standardize_name x"
proof (cases "map_of name_fixes (strip x)")
  case None
  then have "standardize_name x = strip x"
    by (simp add: standardize_name_def replace_def)
  moreover have "standardize_name (strip x) = strip x"
    using None by (simp add: standardize_name_def replace_def strip_idem)
  ultimately show ?thesis by simp
next
  case (Some v)
  then have "standardize_name x = v"
    by (simp add: standardize_name_def replace_def)
  moreover have "standardize_name v = v"
    using Some by (rule name_fixes_values)
  ultimately show ?thesis by simp
qed

text \<open>
  C10. Both copies of \<open>categorize\<close> send a null code to a null category, the codes 1, 2, 3
  to Metropolitan, the codes 4 to 7 to Micropolitan/Small Urban, and every other code that
  is not null to Rural: 0 and 10, a fractional code, an infinity.
\<close>

theorem categorize_cases:
  "categorize NaN = None \<and> categorize_temporal NaN = None \<and>
   (\<forall>code. code \<in> {Finite 1, Finite 2, Finite 3} \<longrightarrow>
      categorize code = Some Metropolitan \<and> categorize_temporal code = Some Metropolitan) \<and>
   (\<forall>code. code \<in> {Finite 4, Finite 5, Finite 6, Finite 7} \<longrightarrow>
      categorize code = Some Micropolitan_Small_Urban \<and>
      categorize_temporal code = Some Micropolitan_Small_Urban) \<and>
   (\<forall>code. code \<noteq> NaN \<and>
        code \<notin> {Finite 1, Finite 2, Finite 3, Finite 4, Finite 5, Finite 6, Finite 7} \<longrightarrow>
      categorize code = Some Rural \<and> categorize_temporal code = Some Rural) \<and>
   categorize (Finite 0) = Some Rural \<and> categorize (Finite 10) = Some Rural \<and>
   categorize_temporal (Finite 0) = Some Rural \<and> categorize_temporal (Finite 10) = Some Rural"
proof -
  have na: "isna code \<longleftrightarrow> code = NaN" for code by (cases code) simp_all
  show ?thesis by (auto simp: categorize_def categorize_temporal_def na)
qed

theorem categorize_cases_witness:
  "categorize (Finite 2) = Some Metropolitan \<and>
   categorize_temporal (Finite 6) = Some Micropolitan_Small_Urban \<and>
   categorize (Finite 9) = Some Rural \<and> categorize_temporal (Finite (5 / 2)) = Some Rural"
  using categorize_cases by simp

section \<open>Properties of the quality checks\<close>

lemma set_dropna: "set (dropna xs) = {v. Some v \<in> set xs}"
  by (induction xs) (auto simp: dropna_def split: option.splits)

lemma nunique_card: "nunique xs = card {v. Some v \<in> set xs}"
  by (simp add: nunique_def length_remdups_card_conv set_dropna)

lemma county_counts_years:
  "map fst (county_counts rs) = sort (remdups (dropna (map Year rs)))"
  by (simp add: county_counts_def comp_def)

lemma distinct_county_years: "distinct (map fst (county_counts rs))"
  by (simp add: county_counts_years)

lemma set_county_years: "set (map fst (county_counts rs)) = {y. Some y \<in> Year ` set rs}"
  by (simp add: county_counts_years set_dropna)

lemma county_counts_value:
  assumes "(y, c) \<in> set (county_counts rs)"
  shows "c = card {n. \<exists>r \<in> set rs. Year r = Some y \<and> County r = Some n}"
proof -
  have "c = nunique (map County (filter (\<lambda>r. Year r = Some y) rs))"
    using assms by (auto simp: county_counts_def)
  also have "\<dots> = card {n. Some n \<in> County ` {r \<in> set rs. Year r = Some y}}"
    by (simp add: nunique_card)
  also have "{n. Some n \<in> County ` {r \<in> set rs. Year r = Some y}} =
      {n. \<exists>r \<in> set rs. Year r = Some y \<and> County r = Some n}"
    by force
  finally show ?thesis .
qed

lemma filter_names_year_counts:
  assumes "distinct (map fst ycs)"
  shows "filter (names_year y)
           (map (\<lambda>(year, count). County_count year count)
                (filter (\<lambda>(year, count). count \<noteq> 67) ycs)) =
         map (\<lambda>(year, count). County_count year count)
             (filter (\<lambda>(year, count). year = y \<and> count \<noteq> 67) ycs)"
  by (induction ycs) (auto simp: names_year_def)

lemma filter_fst_distinct:
  assumes "distinct (map fst ycs)" and "(y, c) \<in> set ycs"
  shows "filter (\<lambda>(year, count). year = y) ycs = [(y, c)]"
  using assms
proof (induction ycs)
  case Nil
  then show ?case by simp
next
  case (Cons p ycs)
  show ?case
  proof (cases "p = (y, c)")
    case True
    then have "y \<notin> fst ` set ycs" using Cons.prems(1) by auto
    then have "filter (\<lambda>(year, count). year = y) ycs = []"
      by (force simp: filter_empty_conv)
    then show ?thesis using True by simp
  next
    case False
    then have "(y, c) \<in> set ycs" using Cons.prems(2) by auto
    moreover from this have "y \<in> fst ` set ycs" by force
    then have "fst p \<noteq> y" using Cons.prems(1) by auto
    ultimately show ?thesis using Cons by (auto split: prod.splits)
  qed
qed


lemma quality_checks_Inr:
  assumes "quality_checks df = Inr (t, issues)"
  shows "issues =
      map (\<lambda>(col, count). Missing_values col count)
          (filter (\<lambda>(col, count). count > 0)
             (map (\<lambda>col. (col, length (filter (isnull col) (rows df)))) (columns df))) @
      map (\<lambda>(year, count). County_count year count)
          (filter (\<lambda>(year, count). count \<noteq> 67) (county_counts (rows df))) @
      map (\<lambda>r. Low_turnout (County r) (Year r) (Turnout_Percent r)) (low_turnout (rows df)) @
      (if length (duplicates (rows df)) > 0
       then [Duplicate_records (length (duplicates (rows df)))] else [])"
    and "rows t = rows df"
  using assms by (auto simp: quality_checks_def Let_def split: if_splits)



text \<open>
  The hypothesis on the columns is needed: selecting a column that the table does not
  carry raises \<open>KeyError\<close>.
\<close>

lemma quality_checks_KeyError:
  "quality_checks \<lparr>columns = [], rows = []\<rparr> = Inl (KeyError ''Year'')"
  by (simp add: quality_checks_def)

text \<open>
  C6. For every year of the table whose number of distinct counties is not 67, the
  issue list holds exactly one county-count issue naming that year, and it gives the
  number of distinct counties of that year.
\<close>

theorem county_count_issue:
  assumes "quality_checks df = Inr (t, issues)"
    and "Some y \<in> Year ` set (rows df)"
    and "card {n. \<exists>r \<in> set (rows df). Year r = Some y \<and> County r = Some n} \<noteq> 67"
  shows "filter (names_year y) issues =
     [County_count y (card {n. \<exists>r \<in> set (rows df). Year r = Some y \<and> County r = Some n})]"
proof -
  let ?c = "card {n. \<exists>r \<in> set (rows df). Year r = Some y \<and> County r = Some n}"
  let ?ycs = "county_counts (rows df)"
  have "y \<in> set (map fst ?ycs)"
    using assms(2) by (simp only: set_county_years) simp
  then obtain c where c: "(y, c) \<in> set ?ycs" by auto
  then have "c = ?c" by (rule county_counts_value)
  have one: "filter (\<lambda>(year, count). year = y) ?ycs = [(y, ?c)]"
    using distinct_county_years c unfolding \<open>c = ?c\<close> by (rule filter_fst_distinct)
  have "filter (\<lambda>(year, count). year = y \<and> count \<noteq> 67) ?ycs =
      filter (\<lambda>(year, count). count \<noteq> 67) (filter (\<lambda>(year, count). year = y) ?ycs)"
    by (simp add: case_prod_unfold conj_commute)
  also have "\<dots> = [(y, ?c)]"
    using assms(3) by (simp add: one)
  finally have sel: "filter (\<lambda>(year, count). year = y \<and> count \<noteq> 67) ?ycs = [(y, ?c)]" .
  have counts: "filter (names_year y)
           (map (\<lambda>(year, count). County_count year count)
                (filter (\<lambda>(year, count). count \<noteq> 67) ?ycs)) = [County_count y ?c]"
    using distinct_county_years by (simp add: filter_names_year_counts sel)
  have others: "filter (names_year y) (map (\<lambda>(col, count). Missing_values col count) xs) = []"
      "filter (names_year y) (map (\<lambda>r. Low_turnout (County r) (Year r) (Turnout_Percent r)) rs) = []"
      for xs rs
    by (auto simp: names_year_def filter_empty_conv)
  show ?thesis
    unfolding quality_checks_Inr(1) [OF assms(1)] filter_append counts others
    by (simp add: names_year_def)
qed


lemma filter_key_distinct:
  "distinct (map f xs) \<Longrightarrow> length (filter (\<lambda>x. f x = k) xs) \<le> 1"
proof (induction xs)
  case Nil
  then show ?case by simp
next
  case (Cons a xs)
  show ?case
  proof (cases "f a = k")
    case True
    then have "k \<notin> f ` set xs" using Cons.prems by auto
    then have "filter (\<lambda>x. f x = k) xs = []"
      by (auto simp: filter_empty_conv)
    then show ?thesis using True by simp
  next
    case False
    then show ?thesis using Cons by simp
  qed
qed

lemma duplicates_distinct:
  assumes "distinct (map (\<lambda>r. (County r, Year r)) rs)"
  shows "duplicates rs = []"
proof -
  have "length (filter (\<lambda>q. County q = County r \<and> Year q = Year r) rs) \<le> 1"
    for r :: row
    using filter_key_distinct [OF assms, of "(County r, Year r)"] by simp
  then show ?thesis by (auto simp: duplicates_def filter_empty_conv not_less)
qed

lemma quality_checks_parts:
  assumes "columns df = cleaned_columns"
    and "list_all (\<lambda>col. list_all (\<lambda>r. \<not> isnull col r) (rows df)) cleaned_columns"
    and "county_counts (rows df) = ccs"
    and "low_turnout (rows df) = lows"
    and "distinct (map (\<lambda>r. (County r, Year r)) (rows df))"
  shows "quality_checks df =
     Inr (df, map (\<lambda>(year, count). County_count year count)
                  (filter (\<lambda>(year, count). count \<noteq> 67) ccs) @
              map (\<lambda>r. Low_turnout (County r) (Year r) (Turnout_Percent r)) lows)"
proof -
  have nn: "filter (isnull col) (rows df) = []" if "col \<in> set cleaned_columns" for col
    using assms(2) that by (auto simp: list_all_iff filter_empty_conv)
  have "filter (\<lambda>(col, count). count > 0)
          (map (\<lambda>col. (col, length (filter (isnull col) (rows df)))) cleaned_columns) = []"
    by (auto simp: filter_empty_conv nn)
  moreover have "duplicates (rows df) = []"
    using assms(5) by (rule duplicates_distinct)
  moreover have "\<lparr>columns = cleaned_columns, rows = rows df\<rparr> = df"
    using assms(1) by simp
  ultimately show ?thesis
    using assms(3,4) by (simp add: quality_checks_def Let_def assms(1) cleaned_columns_def)
qed

lemma distinct_florida_counties: "distinct florida_counties"
  by code_simp


lemma with_first_row_checks:
  assumes "list_all (\<lambda>col. list_all (\<lambda>r. \<not> isnull col r) (rows (with_first_row r))) cleaned_columns"
    and "county_counts (rows (with_first_row r)) = [(2020, 67)]"
    and "low_turnout (rows (with_first_row r)) = []"
    and "distinct (map (\<lambda>r. (County r, Year r)) (rows (with_first_row r)))"
  shows "quality_checks (with_first_row r) = Inr (with_first_row r, [])"
proof -
  have "columns (with_first_row r) = cleaned_columns"
    by (simp add: with_first_row_def)
  from quality_checks_parts [OF this assms] show ?thesis by simp
qed

text \<open>
  The table of 66 counties for 2020: exactly one county-count issue, naming 2020 and 66.
\<close>

theorem county_count_issue_witness:
  "quality_checks sixty_six_counties = Inr (sixty_six_counties, [County_count 2020 66]) \<and>
   card {n. \<exists>r \<in> set (rows sixty_six_counties). Year r = Some 2020 \<and> County r = Some n} = 66 \<and>
   filter (names_year 2020) [County_count 2020 66] = [County_count 2020 66]"
proof -
  let ?c = "card {n. \<exists>r \<in> set (rows sixty_six_counties). Year r = Some 2020 \<and> County r = Some n}"
  have cols: "columns sixty_six_counties = cleaned_columns"
    by (simp add: sixty_six_counties_def)
  have cc: "county_counts (rows sixty_six_counties) = [(2020, 66)]"
    by code_simp
  have "list_all (\<lambda>col. list_all (\<lambda>r. \<not> isnull col r) (rows sixty_six_counties)) cleaned_columns"
    by code_simp
  moreover note cc
  moreover have "low_turnout (rows sixty_six_counties) = []"
    by code_simp
  moreover have "distinct (map (\<lambda>r. (County r, Year r)) (rows sixty_six_counties))"
    by code_simp
  ultimately have h: "quality_checks sixty_six_counties =
      Inr (sixty_six_counties, [County_count 2020 66])"
    using quality_checks_parts [OF cols] by simp
  have "(2020, 66) \<in> set (county_counts (rows sixty_six_counties))"
    by (simp add: cc)
  then have c: "?c = 66" by (rule county_counts_value [symmetric])
  have y: "Some 2020 \<in> Year ` set (rows sixty_six_counties)"
    by (simp add: sixty_six_counties_def county_rows_def florida_counties_def election_row_def)
  have "?c \<noteq> 67" using c by simp
  from county_count_issue [OF h y this] h c show ?thesis by simp
qed

text \<open>
  On every table, a range finding of the issue list is a turnout below 30: the issue
  list never holds a finding for a turnout above 95.
\<close>

lemma low_turnout_issues_only:
  assumes "quality_checks df = Inr (t, issues)" and "Low_turnout c y v \<in> set issues"
  shows "float_lt v 30"
  using assms
  by (auto simp: quality_checks_def Let_def low_turnout_def split: if_splits)

text \<open>
  C1. The table of all 67 counties in which Alachua reports a turnout of 96.0 (960 votes
  of 1000 registered): the range check selects the row, and the returned issue list is
  empty.
\<close>

theorem high_turnout_not_in_issues:
  "high_turnout (rows high_turnout_table) =
     [election_row (Some 12001) ''Alachua'' 2020 1000 960 96] \<and>
   quality_checks high_turnout_table = Inr (high_turnout_table, [])"
proof
  show "high_turnout (rows high_turnout_table) =
     [election_row (Some 12001) ''Alachua'' 2020 1000 960 96]"
    by code_simp
  have "list_all (\<lambda>col. list_all (\<lambda>r. \<not> isnull col r) (rows high_turnout_table)) cleaned_columns"
    by code_simp
  moreover have "county_counts (rows high_turnout_table) = [(2020, 67)]"
    by code_simp
  moreover have "low_turnout (rows high_turnout_table) = []"
    by code_simp
  moreover have "distinct (map (\<lambda>r. (County r, Year r)) (rows high_turnout_table))"
    by code_simp
  ultimately show "quality_checks high_turnout_table = Inr (high_turnout_table, [])"
    unfolding high_turnout_table_def by (rule with_first_row_checks)
qed

text \<open>
  C2. The recomputation check selects no row for 1000 registered, 700 cast and a
  reported 70.0, and selects the row when 75.0 is reported; in the table of all 67
  counties with that row, the returned issue list is empty.
\<close>

theorem mismatch_not_in_issues:
  "mismatches [election_row (Some 12001) ''Alachua'' 2020 1000 700 70] = [] \<and>
   mismatches [election_row (Some 12001) ''Alachua'' 2020 1000 700 75] =
     [election_row (Some 12001) ''Alachua'' 2020 1000 700 75] \<and>
   mismatches (rows mismatch_table) = [election_row (Some 12001) ''Alachua'' 2020 1000 700 75] \<and>
   quality_checks mismatch_table = Inr (mismatch_table, [])"
proof (intro conjI)
  show "mismatches [election_row (Some 12001) ''Alachua'' 2020 1000 700 70] = []"
    by code_simp
  show "mismatches [election_row (Some 12001) ''Alachua'' 2020 1000 700 75] =
     [election_row (Some 12001) ''Alachua'' 2020 1000 700 75]"
    by code_simp
  show "mismatches (rows mismatch_table) =
     [election_row (Some 12001) ''Alachua'' 2020 1000 700 75]"
    by code_simp
  have "list_all (\<lambda>col. list_all (\<lambda>r. \<not> isnull col r) (rows mismatch_table)) cleaned_columns"
    by code_simp
  moreover have "county_counts (rows mismatch_table) = [(2020, 67)]"
    by code_simp
  moreover have "low_turnout (rows mismatch_table) = []"
    by code_simp
  moreover have "distinct (map (\<lambda>r. (County r, Year r)) (rows mismatch_table))"
    by code_simp
  ultimately show "quality_checks mismatch_table = Inr (mismatch_table, [])"
    unfolding mismatch_table_def by (rule with_first_row_checks)
qed

section \<open>Properties of the key resolution\<close>

text \<open>
  C3 (as amended). A missing FIPS reference is not a failure: \<open>load_data\<close> returns the
  election table with no reference, and \<open>add_fips_codes\<close> then returns the election
  table as it is, raising nothing. A missing election table makes \<open>load_data\<close> return
  no table at all.
\<close>

theorem absent_fips_table_returns:
  "load_data None fips_file = (None, None) \<and>
   load_data (Some elections) None = (Some elections, None) \<and>
   add_fips_codes elections_df None = Inr elections_df"
  by (simp add: load_data_def add_fips_codes_def)

text \<open>
  C3 as stated fails: with the reference absent, the sample table is loaded and
  returned by \<open>add_fips_codes\<close> unchanged, without a FIPS column, and the quality
  checks that follow in \<open>main\<close> run on it.
\<close>

theorem absent_fips_table_counterexample:
  "load_data (Some sample_elections) None = (Some sample_elections, None) \<and>
   add_fips_codes sample_elections None = Inr sample_elections \<and>
   ''FIPS'' \<notin> set (columns sample_elections) \<and>
   quality_checks sample_elections = Inr (sample_elections, [County_count 2020 2])"
proof -
  have "quality_checks sample_elections = Inr (sample_elections, [County_count 2020 2])"
    by code_simp
  then show ?thesis
    by (simp add: load_data_def add_fips_codes_def sample_elections_def unresolved_columns_def)
qed






section \<open>Properties of the integration\<close>

lemma length_merge_left:
  "length (merge_left key left right) = (\<Sum>l\<leftarrow>left. multiplicity (Some right) (key l))"
proof -
  have "length (case filter (\<lambda>(k, v). k = key l) right of
                  [] \<Rightarrow> [(l, None)]
                | ms \<Rightarrow> map (\<lambda>(k, v). (l, Some v)) ms) =
        multiplicity (Some right) (key l)" for l
    by (cases "filter (\<lambda>(k, v). k = key l) right") (simp_all add: multiplicity_def)
  then show ?thesis
    by (simp add: merge_left_def length_concat comp_def)
qed

lemma map_key_matches:
  "map (\<lambda>x. key (fst x)) (map (\<lambda>(k, v). (l, Some v)) ms) = replicate (length ms) (key l)"
  by (induction ms) auto

lemma key_merge_left:
  "map (\<lambda>x. key (fst x)) (merge_left key left right) =
     concat (map (\<lambda>l. replicate (multiplicity (Some right) (key l)) (key l)) left)"
proof -
  have "map (\<lambda>x. key (fst x)) (case filter (\<lambda>(k, v). k = key l) right of
                  [] \<Rightarrow> [(l, None)]
                | ms \<Rightarrow> map (\<lambda>(k, v). (l, Some v)) ms) =
        replicate (multiplicity (Some right) (key l)) (key l)" for l
  proof (cases "filter (\<lambda>(k, v). k = key l) right")
    case Nil
    then show ?thesis by (simp add: multiplicity_def)
  next
    case (Cons m ms)
    show ?thesis
      unfolding Cons list.case map_key_matches by (simp add: Cons multiplicity_def)
  qed
  then show ?thesis
    by (simp add: merge_left_def map_concat comp_def)
qed


lemma sum_list_concat_replicate:
  "sum_list (map f (concat (map (\<lambda>r. replicate (n r) (k r)) rs))) = (\<Sum>r\<leftarrow>rs. n r * f (k r))"
  by (induction rs) (simp_all add: map_replicate_const sum_list_replicate)

lemma multiplicity_pos: "1 \<le> multiplicity table k"
  by (simp add: multiplicity_def split: option.splits)

lemma multiplicity_unique: "unique_key table \<Longrightarrow> multiplicity table k = 1"
proof (cases table)
  case None
  then show ?thesis by (simp add: multiplicity_def)
next
  case (Some t)
  assume "unique_key table"
  then have "distinct (map fst t)" using Some by (simp add: unique_key_def)
  then have "length (filter (\<lambda>x. fst x = k) t) \<le> 1" by (rule filter_key_distinct)
  then show ?thesis using Some by (simp add: multiplicity_def case_prod_unfold)
qed

lemma length_le_sum_list:
  "(\<And>x. x \<in> set xs \<Longrightarrow> 1 \<le> f x) \<Longrightarrow> length xs \<le> sum_list (map f xs)"
  for f :: "'a \<Rightarrow> nat"
proof (induction xs)
  case Nil
  then show ?case by simp
next
  case (Cons a xs)
  have "1 \<le> f a" using Cons.prems by simp
  moreover have "length xs \<le> sum_list (map f xs)" using Cons by simp
  ultimately show ?case by simp
qed

lemma sum_list_const:
  "(\<And>x. x \<in> set xs \<Longrightarrow> f x = m) \<Longrightarrow> sum_list (map f xs) = length xs * m"
  for f :: "'a \<Rightarrow> nat"
  by (induction xs) simp_all

lemma length_two_merges:
  "length (case t2 of
             None \<Rightarrow> map (\<lambda>x. (x, None))
                      (case t1 of None \<Rightarrow> map (\<lambda>r. (r, None)) left
                       | Some c \<Rightarrow> merge_left key left c)
           | Some b \<Rightarrow> merge_left (\<lambda>x. key (fst x))
                        (case t1 of None \<Rightarrow> map (\<lambda>r. (r, None)) left
                         | Some c \<Rightarrow> merge_left key left c) b) =
     (\<Sum>l\<leftarrow>left. multiplicity t1 (key l) * multiplicity t2 (key l))"
proof -
  define first where "first = (case t1 of
       None \<Rightarrow> map (\<lambda>r. (r, None)) left
     | Some c \<Rightarrow> merge_left key left c)"
  have keys: "map (\<lambda>x. key (fst x)) first =
      concat (map (\<lambda>l. replicate (multiplicity t1 (key l)) (key l)) left)"
  proof (cases t1)
    case None
    have "map key ls = concat (map (\<lambda>l. [key l]) ls)" for ls
      by (induction ls) simp_all
    then show ?thesis using None by (simp add: first_def multiplicity_def comp_def)
  next
    case (Some c)
    then show ?thesis by (simp add: first_def key_merge_left)
  qed
  have "length (case t2 of None \<Rightarrow> map (\<lambda>x. (x, None)) first
                | Some b \<Rightarrow> merge_left (\<lambda>x. key (fst x)) first b) =
      sum_list (map (multiplicity t2) (map (\<lambda>x. key (fst x)) first))"
  proof (cases t2)
    case None
    then show ?thesis by (simp add: multiplicity_def comp_def sum_list_triv)
  next
    case (Some b)
    then show ?thesis by (simp add: length_merge_left comp_def)
  qed
  then have "length (case t2 of None \<Rightarrow> map (\<lambda>x. (x, None)) first
                | Some b \<Rightarrow> merge_left (\<lambda>x. key (fst x)) first b) =
      (\<Sum>l\<leftarrow>left. multiplicity t1 (key l) * multiplicity t2 (key l))"
    unfolding keys sum_list_concat_replicate .
  then show ?thesis unfolding first_def .
qed

lemma length_integrate_all_data:
  assumes "integrate_all_data elections census bea = Inr integrated"
  shows "length integrated =
     (\<Sum>r\<leftarrow>rows elections. multiplicity census (FIPS r) * multiplicity bea (FIPS r))"
proof -
  have "integrated = (case bea of
       None \<Rightarrow> map (\<lambda>x. (x, None))
                (case census of None \<Rightarrow> map (\<lambda>r. (r, None)) (rows elections)
                 | Some c \<Rightarrow> merge_left FIPS (rows elections) c)
     | Some b \<Rightarrow> merge_left (\<lambda>x. FIPS (fst x))
                  (case census of None \<Rightarrow> map (\<lambda>r. (r, None)) (rows elections)
                   | Some c \<Rightarrow> merge_left FIPS (rows elections) c) b)"
    using assms by (auto simp: integrate_all_data_def Let_def split: if_splits)
  then show ?thesis by (simp only: length_two_merges)
qed

text \<open>
  C5. When \<open>integrate_all_data\<close> returns, the number of rows of the result is the sum,
  over the election rows, of the product of the row's multiplicities in the census and
  in the BEA table. It is never less than the number of election rows; it is that number
  when both tables have a unique key; and it is that number times m when every election
  row has multiplicity m.
\<close>

theorem integrate_all_data_row_count:
  assumes "integrate_all_data elections census bea = Inr integrated"
  shows "length integrated =
           (\<Sum>r\<leftarrow>rows elections. multiplicity census (FIPS r) * multiplicity bea (FIPS r)) \<and>
         length (rows elections) \<le> length integrated \<and>
         (unique_key census \<and> unique_key bea \<longrightarrow> length integrated = length (rows elections)) \<and>
         (\<forall>m. (\<forall>r \<in> set (rows elections).
                 multiplicity census (FIPS r) * multiplicity bea (FIPS r) = m) \<longrightarrow>
              length integrated = length (rows elections) * m)"
proof -
  note len = length_integrate_all_data [OF assms]
  have pos: "1 \<le> multiplicity census (FIPS r) * multiplicity bea (FIPS r)" for r :: row
    using multiplicity_pos [of census "FIPS r"] multiplicity_pos [of bea "FIPS r"]
    by (metis mult_le_mono nat_mult_1)
  have ge: "length (rows elections) \<le> length integrated"
    unfolding len by (rule length_le_sum_list) (rule pos)
  have uniq: "length integrated = length (rows elections)"
    if "unique_key census \<and> unique_key bea"
    unfolding len using that by (simp add: multiplicity_unique sum_list_triv)
  have uniform: "length integrated = length (rows elections) * m"
    if "\<forall>r \<in> set (rows elections). multiplicity census (FIPS r) * multiplicity bea (FIPS r) = m"
    for m
    unfolding len using that by (intro sum_list_const) simp
  show ?thesis using len ge uniq uniform by blast
qed

text \<open>
  The sample table of two rows: two rows after a merge with a census table of unique
  key; three rows when Alachua's key occurs twice in the census table.
\<close>

theorem integrate_all_data_row_count_witness:
  "unique_key (Some sample_census) \<and>
   (\<exists>out. integrate_all_data sample_resolved (Some sample_census) (None :: (int option \<times> rat) list option) = Inr out \<and>
      length out = length (rows sample_resolved) \<and> length out = 2) \<and>
   \<not> unique_key (Some sample_census_repeated) \<and>
   (\<exists>out. integrate_all_data sample_resolved (Some sample_census_repeated) (Some sample_bea) = Inr out \<and>
      length out = 3 \<and> length (rows sample_resolved) \<le> length out)"
proof -
  have u: "unique_key (Some sample_census)" "unique_key (None :: (int option \<times> rat) list option)"
      "\<not> unique_key (Some sample_census_repeated)"
    by code_simp+
  have "\<not> isl (integrate_all_data sample_resolved (Some sample_census)
          (None :: (int option \<times> rat) list option))"
    by code_simp
  then obtain out1 where out1: "integrate_all_data sample_resolved (Some sample_census)
      (None :: (int option \<times> rat) list option) = Inr out1"
    by (metis sum.collapse(2))
  have "\<not> isl (integrate_all_data sample_resolved (Some sample_census_repeated) (Some sample_bea))"
    by code_simp
  then obtain out2 where out2: "integrate_all_data sample_resolved (Some sample_census_repeated)
      (Some sample_bea) = Inr out2"
    by (metis sum.collapse(2))
  have n: "length (rows sample_resolved) = 2" by (simp add: sample_resolved_def)
  have s: "(\<Sum>r\<leftarrow>rows sample_resolved. multiplicity (Some sample_census_repeated) (FIPS r) *
      multiplicity (Some sample_bea) (FIPS r)) = 3"
    by code_simp
  from integrate_all_data_row_count [OF out1] u n
  have 1: "length out1 = length (rows sample_resolved) \<and> length out1 = 2" by simp
  from integrate_all_data_row_count [OF out2] s n
  have 2: "length out2 = 3 \<and> length (rows sample_resolved) \<le> length out2" by simp
  from u out1 1 out2 2 show ?thesis by blast
qed

section \<open>Properties of the temporal matching\<close>

text \<open>
  The passes of \<open>process_bea_temporal\<close> are merges of the same kind, on the election rows
  of one year each: a row whose year is not a key of \<open>year_mapping\<close> is in no pass.
\<close>

lemma length_year_data:
  "length (year_data astype_int to_numeric elections income_file gdp_file (y, b)) =
     (\<Sum>r\<leftarrow>filter (\<lambda>r. Year r = Some y) elections.
        multiplicity (extract_year astype_int to_numeric ''Per capita personal income'' b
                        income_file) (FIPS r) *
        multiplicity (extract_year astype_int to_numeric ''All industry total'' b gdp_file)
          (FIPS r))"
  unfolding year_data_def Let_def length_map fst_conv snd_conv
  by (rule length_two_merges)









end
